theory Spec2Isabelle
  imports Main
begin

section \<open>The registration form: component state\<close>

text \<open>
  The component \<open>RegisterForm\<close> (src/components/auth/RegisterForm.tsx) keeps eight pieces
  of React state. A JavaScript string is a sequence of code units and \<open>.length\<close> counts
  them; the model takes a \<open>string\<close> as that sequence, so \<open>length\<close> is \<open>.length\<close> and
  \<open>s = []\<close> is the only falsy string.
\<close>

text \<open>
  Modelled from the spec: the type \<open>ClientSafeProvider\<close> belongs to the authentication
  library and is not part of the sources; section 6 of the specification gives a provider
  as \<open>{ id, name, type }\<close>. The component reads \<open>id\<close> and \<open>name\<close> only.
\<close>

record provider =
  provider_id :: string
  provider_name :: string
  provider_type :: string

text \<open>
  \<open>providers\<close> is \<open>Record<string, ClientSafeProvider> | null\<close>: \<open>None\<close> is \<open>null\<close>, and
  an object is the list of its entries in the order \<open>Object.values\<close> enumerates them.
\<close>

record form_state =
  name :: string
  email :: string
  password :: string
  confirmPassword :: string
  isLoading :: bool
  error :: string
  success :: bool
  providers :: "(string \<times> provider) list option"

definition initial_state :: form_state where
  "initial_state =
     \<lparr>name = [], email = [], password = [], confirmPassword = [], isLoading = False,
      error = [], success = False, providers = None\<rparr>"

section \<open>Provider discovery\<close>

datatype exn = TypeError | SyntaxError | OtherError

datatype getProviders_outcome =
  GetProvidersThrows exn
| GetProvidersResolves "(string \<times> provider) list option"

text \<open>
  The effect run on mount: \<open>setProviders(await getProviders())\<close>. A rejected promise
  leaves the state as it was.
\<close>

definition fetchProviders :: "getProviders_outcome \<Rightarrow> form_state \<Rightarrow> form_state" where
  "fetchProviders r st =
     (case r of
        GetProvidersThrows e \<Rightarrow> st
      | GetProvidersResolves providersData \<Rightarrow> st\<lparr>providers := providersData\<rparr>)"

definition oauthProviders :: "form_state \<Rightarrow> provider list" where
  "oauthProviders st =
     (case providers st of
        None \<Rightarrow> []
      | Some ps \<Rightarrow> filter (\<lambda>p. provider_id p \<noteq> ''credentials'') (map snd ps))"

section \<open>Submission\<close>

text \<open>The request of line 70: its body is kept as the object given to \<open>JSON.stringify\<close>.\<close>

record register_body =
  body_name :: string
  body_email :: string
  body_password :: string

record request =
  req_url :: string
  req_method :: string
  req_content_type :: string
  req_body :: register_body

text \<open>
  Modelled from the spec: the route that answers \<open>/api/auth/register\<close> is not part of the
  sources; section 6 of the specification gives a failure body as \<open>{ error: string }\<close>.
  A parsed body is \<open>JsonNull\<close> for the JSON value \<open>null\<close> (reading a property of it
  throws) and otherwise \<open>JsonValue e\<close>, where \<open>e\<close> is its property \<open>error\<close>: \<open>None\<close> when
  the value has no such property, a string when it has.
\<close>

datatype json = JsonNull | JsonValue "string option"

datatype json_outcome = JsonThrows exn | JsonResolves json

record response =
  res_ok :: bool
  res_json :: json_outcome

datatype fetch_outcome = FetchThrows exn | FetchResolves response

text \<open>
  \<open>signIn('credentials', {..., redirect: false})\<close> resolves with a result whose \<open>ok\<close> says
  whether a session was established, or rejects.
\<close>

datatype signIn_outcome = SignInThrows exn | SignInResolves bool

text \<open>What a run of the handler does to the outside world, in order.\<close>

datatype effect =
  FetchCall request
| SignInCall string string string bool
| SetLocationHref string

datatype completion = Normal | Throw exn

type_synonym outcome = "completion \<times> form_state \<times> effect list"

definition register_request :: "form_state \<Rightarrow> request" where
  "register_request st =
     \<lparr>req_url = ''/api/auth/register'', req_method = ''POST'',
      req_content_type = ''application/json'',
      req_body = \<lparr>body_name = name st, body_email = email st, body_password = password st\<rparr>\<rparr>"

text \<open>\<open>data.error\<close>: a \<open>TypeError\<close> on \<open>null\<close>, \<open>undefined\<close> (\<open>None\<close>) on a missing property.\<close>

definition data_error :: "json \<Rightarrow> exn + string option" where
  "data_error data = (case data of JsonNull \<Rightarrow> Inl TypeError | JsonValue e \<Rightarrow> Inr e)"

text \<open>\<open>v || d\<close> for a string or \<open>undefined\<close> on the left.\<close>

definition or_else :: "string option \<Rightarrow> string \<Rightarrow> string" where
  "or_else v d = (case v of None \<Rightarrow> d | Some s \<Rightarrow> if s = [] then d else s)"

text \<open>
  The body of the \<open>try\<close> block, lines 70 to 96. The handler is a closure over the values
  of one render, so \<open>email\<close> and \<open>password\<close> are those of the state it started from.
\<close>

definition try_block :: "fetch_outcome \<Rightarrow> signIn_outcome \<Rightarrow> form_state \<Rightarrow> outcome" where
  "try_block fetch_result signIn_result st =
     (case fetch_result of
        FetchThrows e \<Rightarrow> (Throw e, st, [FetchCall (register_request st)])
      | FetchResolves res \<Rightarrow>
          (case res_json res of
             JsonThrows e \<Rightarrow> (Throw e, st, [FetchCall (register_request st)])
           | JsonResolves data \<Rightarrow>
               if res_ok res then
                 (case signIn_result of
                    SignInThrows e \<Rightarrow>
                      (Throw e, st\<lparr>success := True\<rparr>,
                       [FetchCall (register_request st),
                        SignInCall ''credentials'' (email st) (password st) False])
                  | SignInResolves r \<Rightarrow>
                      (Normal, st\<lparr>success := True\<rparr>,
                       [FetchCall (register_request st),
                        SignInCall ''credentials'' (email st) (password st) False,
                        SetLocationHref ''/'']))
               else
                 (case data_error data of
                    Inl e \<Rightarrow> (Throw e, st, [FetchCall (register_request st)])
                  | Inr v \<Rightarrow>
                      (Normal, st\<lparr>error := or_else v ''Registration failed''\<rparr>,
                       [FetchCall (register_request st)]))))"

text \<open>\<open>catch { setError(...) }\<close> and \<open>finally { setIsLoading(false) }\<close>, lines 97 to 101.\<close>

definition catch_block :: "outcome \<Rightarrow> outcome" where
  "catch_block r =
     (case r of
        (Throw e, st, fx) \<Rightarrow>
          (Normal, st\<lparr>error := ''An error occurred during registration''\<rparr>, fx)
      | (Normal, st, fx) \<Rightarrow> (Normal, st, fx))"

definition finally_block :: "outcome \<Rightarrow> outcome" where
  "finally_block r = (case r of (c, st, fx) \<Rightarrow> (c, st\<lparr>isLoading := False\<rparr>, fx))"

text \<open>
  \<open>handleSubmit\<close>, lines 45 to 102. The arguments \<open>fetch_result\<close> and \<open>signIn_result\<close>
  are what the one \<open>fetch\<close> and the one \<open>signIn\<close> of a run answer when they are called.
\<close>

definition handleSubmit :: "fetch_outcome \<Rightarrow> signIn_outcome \<Rightarrow> form_state \<Rightarrow> outcome" where
  "handleSubmit fetch_result signIn_result st0 =
     (let st = st0\<lparr>isLoading := True, error := []\<rparr> in
      if name st = [] \<or> email st = [] \<or> password st = [] \<or> confirmPassword st = [] then
        (Normal, st\<lparr>error := ''All fields are required'', isLoading := False\<rparr>, [])
      else if password st \<noteq> confirmPassword st then
        (Normal, st\<lparr>error := ''Passwords do not match'', isLoading := False\<rparr>, [])
      else if length (password st) < 6 then
        (Normal,
         st\<lparr>error := ''Password must be at least 6 characters long'', isLoading := False\<rparr>, [])
      else finally_block (catch_block (try_block fetch_result signIn_result st)))"

section \<open>Rendering\<close>

datatype element =
  TextEl string
| FieldEl string string
| ErrorEl string
| SubmitButton string bool
| LinkEl string string
| SeparatorEl
| OAuthButton string string

text \<open>
  The returned tree, lines 104 to 212, flattened in document order. Icon and colour of an
  OAuth button come from helpers outside the sources and are left out.
\<close>

definition render :: "form_state \<Rightarrow> element list" where
  "render st =
     (if success st then [TextEl ''Registration successful! Signing you in...'']
      else
        [FieldEl ''Full Name'' (name st), FieldEl ''Email'' (email st),
         FieldEl ''Password'' (password st),
         FieldEl ''Confirm Password'' (confirmPassword st)]
        @ (if error st \<noteq> [] then [ErrorEl (error st)] else [])
        @ [SubmitButton ''Create Account'' (isLoading st),
           TextEl ''Already have an account? '', LinkEl ''/auth/signin'' ''Sign in'']
        @ (if length (oauthProviders st) > 0 then
             [SeparatorEl, TextEl ''Or continue with'']
             @ map (\<lambda>p. OAuthButton (provider_id p) (provider_name p)) (oauthProviders st)
           else []))"


section \<open>Reading an outcome\<close>

definition completion_of :: "outcome \<Rightarrow> completion" where
  "completion_of r = fst r"

definition final_state :: "outcome \<Rightarrow> form_state" where
  "final_state r = fst (snd r)"

definition effects_of :: "outcome \<Rightarrow> effect list" where
  "effects_of r = snd (snd r)"

section \<open>The registration endpoint and the Credential Store\<close>

text \<open>
  Modelled from the spec: the Account record of the Credential Store is not part of the
  sources; section 3 of the specification lists its fields. The OAuth linkage is filled
  by the authentication library only and is left out.
\<close>

record account =
  acc_id :: nat
  acc_name :: string
  acc_email :: string
  acc_passwordHash :: "string option"
  acc_createdAt :: nat

text \<open>
  Modelled from the spec: the store itself is an external database; it holds the
  Accounts and may be unavailable (section 7, \<open>InternalError\<close>).
\<close>

record store =
  accounts :: "account list"
  available :: bool

text \<open>
  Modelled from the spec: section 3 asks for case-insensitive uniqueness of \<open>email\<close>;
  two addresses are the same when they agree after the letters A to Z are lowered.
\<close>

definition lower_char :: "char \<Rightarrow> char" where
  "lower_char c =
     (case map_of (zip ''ABCDEFGHIJKLMNOPQRSTUVWXYZ'' ''abcdefghijklmnopqrstuvwxyz'') c of
        None \<Rightarrow> c
      | Some l \<Rightarrow> l)"

definition same_email :: "string \<Rightarrow> string \<Rightarrow> bool" where
  "same_email a b = (map lower_char a = map lower_char b)"

text \<open>Modelled from the spec: the invariant of section 3, \<open>email\<close> is unique across Accounts.\<close>

definition unique_emails :: "store \<Rightarrow> bool" where
  "unique_emails s = distinct (map (\<lambda>a. map lower_char (acc_email a)) (accounts s))"

definition accounts_for :: "store \<Rightarrow> string \<Rightarrow> account list" where
  "accounts_for s e = filter (\<lambda>a. same_email (acc_email a) e) (accounts s)"

datatype store_error = UniqueViolation | StoreUnavailable

text \<open>Modelled from the spec: the lookup behind check 4 of section 4.1.\<close>

definition find_by_email :: "store \<Rightarrow> string \<Rightarrow> store_error + account option" where
  "find_by_email s e =
     (if \<not> available s then Inl StoreUnavailable
      else Inr (find (\<lambda>a. same_email (acc_email a) e) (accounts s)))"

text \<open>
  Modelled from the spec: the insert of the store, with the unique constraint that
  section 5 requires of it (check and insert are one atomic step).
\<close>

definition store_insert :: "store \<Rightarrow> account \<Rightarrow> store_error + store" where
  "store_insert s a =
     (if \<not> available s then Inl StoreUnavailable
      else if list_ex (\<lambda>b. same_email (acc_email b) (acc_email a)) (accounts s)
        then Inl UniqueViolation
      else Inr (s\<lparr>accounts := accounts s @ [a]\<rparr>))"

text \<open>
  Modelled from the spec: the race of section 5. Other registrations may insert their
  Accounts between the pre-check of a request and its own insert; each goes through the
  store's constraint, and a rejected one leaves the store as it was.
\<close>

fun concurrent_inserts :: "account list \<Rightarrow> store \<Rightarrow> store" where
  "concurrent_inserts [] s = s"
| "concurrent_inserts (a # as) s =
     concurrent_inserts as (case store_insert s a of Inl e \<Rightarrow> s | Inr s' \<Rightarrow> s')"

datatype register_error = ValidationError string | ConflictError string | InternalError string

record public_account =
  pub_id :: nat
  pub_name :: string
  pub_email :: string
  pub_createdAt :: nat

text \<open>
  Modelled from the spec: the Registration Handler of section 4.1, whose route is not part
  of the sources. Checks 1, 3 and 4 in order, then hash and persist; a violation of the
  store's constraint is answered as the pre-check conflict is (section 5). The slow salted
  hash \<open>hash\<close>, the identifier \<open>new_id\<close> and the time \<open>now\<close> are parameters; \<open>others\<close> are
  the Accounts that concurrent registrations insert between pre-check and insert, \<open>[]\<close>
  in a sequential run. The result is the answer and the store afterwards.
\<close>

definition register_handler ::
  "(string \<Rightarrow> string) \<Rightarrow> nat \<Rightarrow> nat \<Rightarrow> account list \<Rightarrow> store \<Rightarrow> register_body
     \<Rightarrow> (register_error + public_account) \<times> store" where
  "register_handler hash new_id now others s req =
     (if body_name req = [] \<or> body_email req = [] \<or> body_password req = [] then
        (Inl (ValidationError ''all fields required''), s)
      else if length (body_password req) < 6 then
        (Inl (ValidationError ''password too short''), s)
      else
        (case find_by_email s (body_email req) of
           Inl e \<Rightarrow> (Inl (InternalError ''an error occurred''), s)
         | Inr (Some a) \<Rightarrow> (Inl (ConflictError ''email already registered''), s)
         | Inr None \<Rightarrow>
             (let s1 = concurrent_inserts others s in
              case store_insert s1
                     \<lparr>acc_id = new_id, acc_name = body_name req, acc_email = body_email req,
                      acc_passwordHash = Some (hash (body_password req)), acc_createdAt = now\<rparr> of
                Inl UniqueViolation \<Rightarrow> (Inl (ConflictError ''email already registered''), s1)
              | Inl StoreUnavailable \<Rightarrow> (Inl (InternalError ''an error occurred''), s1)
              | Inr s2 \<Rightarrow>
                  (Inr \<lparr>pub_id = new_id, pub_name = body_name req, pub_email = body_email req,
                        pub_createdAt = now\<rparr>, s2))))"


section \<open>Properties of the submission handler\<close>

lemma try_block_effects_hd:
  "\<exists>fx. effects_of (try_block f s st) = FetchCall (register_request st) # fx"
  by (simp add: try_block_def effects_of_def split: fetch_outcome.split json_outcome.split
      signIn_outcome.split sum.split)

lemma finally_catch_effects [simp]:
  "effects_of (finally_block (catch_block r)) = effects_of r"
  by (cases r) (simp add: finally_block_def catch_block_def effects_of_def split: completion.split)

lemma passes_validation:
  assumes "name st \<noteq> []" "email st \<noteq> []" "password st \<noteq> []" "confirmPassword st \<noteq> []"
    and "password st = confirmPassword st" "6 \<le> length (password st)"
  shows "handleSubmit f s st =
     finally_block (catch_block (try_block f s (st\<lparr>isLoading := True, error := []\<rparr>)))"
  using assms by (auto simp add: handleSubmit_def Let_def)

lemma fetch_call_is_register_request:
  "FetchCall req \<in> set (effects_of (handleSubmit f s st)) \<Longrightarrow>
     req = register_request st \<and> name st \<noteq> [] \<and> email st \<noteq> [] \<and> password st \<noteq> [] \<and>
     confirmPassword st = password st \<and> 6 \<le> length (password st)"
  by (auto simp add: handleSubmit_def Let_def effects_of_def try_block_def finally_block_def
      catch_block_def register_request_def
      split: if_splits fetch_outcome.splits json_outcome.splits signIn_outcome.splits sum.splits)

text \<open>
  Claim C1. The checks run in a fixed order and the first one that fails decides the
  outcome: an empty field gives \<open>All fields are required\<close> whatever the passwords are; with
  all four fields filled, a confirmation that differs gives \<open>Passwords do not match\<close>
  whatever the length is; with both passed, a password shorter than 6 gives the length
  message. In each case the handler ends there: one message, no effect.
\<close>

theorem validation_order:
  "(name st = [] \<or> email st = [] \<or> password st = [] \<or> confirmPassword st = [] \<longrightarrow>
      handleSubmit f s st =
        (Normal, st\<lparr>isLoading := False, error := ''All fields are required''\<rparr>, []))
   \<and> (name st \<noteq> [] \<and> email st \<noteq> [] \<and> password st \<noteq> [] \<and> confirmPassword st \<noteq> [] \<and>
      password st \<noteq> confirmPassword st \<longrightarrow>
      handleSubmit f s st =
        (Normal, st\<lparr>isLoading := False, error := ''Passwords do not match''\<rparr>, []))
   \<and> (name st \<noteq> [] \<and> email st \<noteq> [] \<and> password st \<noteq> [] \<and> confirmPassword st \<noteq> [] \<and>
      password st = confirmPassword st \<and> length (password st) < 6 \<longrightarrow>
      handleSubmit f s st =
        (Normal,
         st\<lparr>isLoading := False, error := ''Password must be at least 6 characters long''\<rparr>,
         []))"
  by (auto simp add: handleSubmit_def Let_def)

text \<open>
  Three submissions: the first breaks all three checks, the second the last two, the third
  the last one only.
\<close>

theorem validation_order_witness:
  "handleSubmit (FetchThrows TypeError) (SignInResolves True)
     \<lparr>name = [], email = ''a@b.c'', password = ''abc'', confirmPassword = ''xyz'',
      isLoading = False, error = [], success = False, providers = None\<rparr> =
     (Normal,
      \<lparr>name = [], email = ''a@b.c'', password = ''abc'', confirmPassword = ''xyz'',
       isLoading = False, error = ''All fields are required'', success = False,
       providers = None\<rparr>, [])
   \<and> handleSubmit (FetchThrows TypeError) (SignInResolves True)
     \<lparr>name = ''Ada'', email = ''a@b.c'', password = ''abc'', confirmPassword = ''xyz'',
      isLoading = False, error = [], success = False, providers = None\<rparr> =
     (Normal,
      \<lparr>name = ''Ada'', email = ''a@b.c'', password = ''abc'', confirmPassword = ''xyz'',
       isLoading = False, error = ''Passwords do not match'', success = False,
       providers = None\<rparr>, [])
   \<and> handleSubmit (FetchThrows TypeError) (SignInResolves True)
     \<lparr>name = ''Ada'', email = ''a@b.c'', password = ''abc'', confirmPassword = ''abc'',
      isLoading = False, error = [], success = False, providers = None\<rparr> =
     (Normal,
      \<lparr>name = ''Ada'', email = ''a@b.c'', password = ''abc'', confirmPassword = ''abc'',
       isLoading = False, error = ''Password must be at least 6 characters long'',
       success = False, providers = None\<rparr>, [])"
  using
    validation_order [of
      "\<lparr>name = [], email = ''a@b.c'', password = ''abc'', confirmPassword = ''xyz'',
        isLoading = False, error = [], success = False, providers = None\<rparr>"
      "FetchThrows TypeError" "SignInResolves True"]
    validation_order [of
      "\<lparr>name = ''Ada'', email = ''a@b.c'', password = ''abc'', confirmPassword = ''xyz'',
        isLoading = False, error = [], success = False, providers = None\<rparr>"
      "FetchThrows TypeError" "SignInResolves True"]
    validation_order [of
      "\<lparr>name = ''Ada'', email = ''a@b.c'', password = ''abc'', confirmPassword = ''abc'',
        isLoading = False, error = [], success = False, providers = None\<rparr>"
      "FetchThrows TypeError" "SignInResolves True"]
  by simp

text \<open>
  Claim C3. A submission whose name, email or password is empty ends normally with the
  message \<open>All fields are required\<close>, leaves \<open>success\<close> as it was and has no effect on the
  outside: no request to the registration endpoint, hence no store write.
\<close>

theorem missing_field_no_request:
  assumes "name st = [] \<or> email st = [] \<or> password st = []"
  shows "completion_of (handleSubmit f s st) = Normal
     \<and> error (final_state (handleSubmit f s st)) = ''All fields are required''
     \<and> success (final_state (handleSubmit f s st)) = success st
     \<and> effects_of (handleSubmit f s st) = []
     \<and> (\<forall>req. FetchCall req \<notin> set (effects_of (handleSubmit f s st)))"
  using assms
  by (auto simp add: handleSubmit_def Let_def completion_of_def final_state_def effects_of_def)

theorem missing_field_no_request_witness:
  "email
     \<lparr>name = ''Ada'', email = [], password = ''secret1'', confirmPassword = ''secret1'',
      isLoading = False, error = [], success = False, providers = None\<rparr> = []
   \<and> error (final_state (handleSubmit
       (FetchResolves \<lparr>res_ok = True, res_json = JsonResolves (JsonValue None)\<rparr>)
       (SignInResolves True)
       \<lparr>name = ''Ada'', email = [], password = ''secret1'', confirmPassword = ''secret1'',
        isLoading = False, error = [], success = False, providers = None\<rparr>))
     = ''All fields are required''
   \<and> effects_of (handleSubmit
       (FetchResolves \<lparr>res_ok = True, res_json = JsonResolves (JsonValue None)\<rparr>)
       (SignInResolves True)
       \<lparr>name = ''Ada'', email = [], password = ''secret1'', confirmPassword = ''secret1'',
        isLoading = False, error = [], success = False, providers = None\<rparr>) = []"
  using missing_field_no_request [of
      "\<lparr>name = ''Ada'', email = [], password = ''secret1'', confirmPassword = ''secret1'',
        isLoading = False, error = [], success = False, providers = None\<rparr>"
      "FetchResolves \<lparr>res_ok = True, res_json = JsonResolves (JsonValue None)\<rparr>"
      "SignInResolves True"]
  by simp

text \<open>
  Claim C4. Once the emptiness and confirmation checks are passed, a password shorter than
  6 ends the submission with the length message and no effect, a password of length 6 or
  more makes the registration request the first effect, and so a request is sent exactly
  when the length is at least 6.
\<close>

theorem length_check:
  assumes "name st \<noteq> []" "email st \<noteq> []" "password st \<noteq> []" "confirmPassword st \<noteq> []"
    and "password st = confirmPassword st"
  shows "(length (password st) < 6 \<longrightarrow>
            handleSubmit f s st =
              (Normal,
               st\<lparr>isLoading := False, error := ''Password must be at least 6 characters long''\<rparr>,
               []))
     \<and> (6 \<le> length (password st) \<longrightarrow>
            (\<exists>fx. effects_of (handleSubmit f s st) = FetchCall (register_request st) # fx))
     \<and> ((\<exists>req. FetchCall req \<in> set (effects_of (handleSubmit f s st))) = (6 \<le> length (password st)))"
proof -
  obtain fx where fx: "effects_of (try_block f s (st\<lparr>isLoading := True, error := []\<rparr>)) =
      FetchCall (register_request (st\<lparr>isLoading := True, error := []\<rparr>)) # fx"
    using try_block_effects_hd by blast
  have rr: "register_request (st\<lparr>isLoading := True, error := []\<rparr>) = register_request st"
    by (simp add: register_request_def)
  show ?thesis
  proof (cases "length (password st) < 6")
    case True
    with assms show ?thesis by (simp add: handleSubmit_def Let_def effects_of_def)
  next
    case False
    with assms fx rr show ?thesis by (auto simp add: handleSubmit_def Let_def)
  qed
qed

text \<open>A password of five code units and one of six, each confirmed.\<close>

theorem length_check_witness:
  "error (final_state (handleSubmit (FetchThrows TypeError) (SignInResolves True)
       \<lparr>name = ''Ada'', email = ''a@b.c'', password = ''12345'', confirmPassword = ''12345'',
        isLoading = False, error = [], success = False, providers = None\<rparr>))
     = ''Password must be at least 6 characters long''
   \<and> effects_of (handleSubmit (FetchThrows TypeError) (SignInResolves True)
       \<lparr>name = ''Ada'', email = ''a@b.c'', password = ''12345'', confirmPassword = ''12345'',
        isLoading = False, error = [], success = False, providers = None\<rparr>) = []
   \<and> effects_of (handleSubmit (FetchThrows TypeError) (SignInResolves True)
       \<lparr>name = ''Ada'', email = ''a@b.c'', password = ''123456'', confirmPassword = ''123456'',
        isLoading = False, error = [], success = False, providers = None\<rparr>) \<noteq> []"
  using
    length_check [of
      "\<lparr>name = ''Ada'', email = ''a@b.c'', password = ''12345'', confirmPassword = ''12345'',
        isLoading = False, error = [], success = False, providers = None\<rparr>"
      "FetchThrows TypeError" "SignInResolves True"]
    length_check [of
      "\<lparr>name = ''Ada'', email = ''a@b.c'', password = ''123456'', confirmPassword = ''123456'',
        isLoading = False, error = [], success = False, providers = None\<rparr>"
      "FetchThrows TypeError" "SignInResolves True"]
  by (auto simp add: final_state_def effects_of_def)

text \<open>
  Claim C9. The confirmation field takes part in the emptiness check: with name, email and
  password filled and the confirmation empty, the message is \<open>All fields are required\<close>,
  not \<open>Passwords do not match\<close>, and no request is sent.
\<close>

theorem empty_confirmation_rejected:
  assumes "name st \<noteq> []" "email st \<noteq> []" "password st \<noteq> []" "confirmPassword st = []"
  shows "handleSubmit f s st =
       (Normal, st\<lparr>isLoading := False, error := ''All fields are required''\<rparr>, [])
     \<and> error (final_state (handleSubmit f s st)) \<noteq> ''Passwords do not match''
     \<and> (\<forall>req. FetchCall req \<notin> set (effects_of (handleSubmit f s st)))"
  using assms by (simp add: handleSubmit_def Let_def final_state_def effects_of_def)

theorem empty_confirmation_rejected_witness:
  "handleSubmit (FetchResolves \<lparr>res_ok = True, res_json = JsonResolves (JsonValue None)\<rparr>)
     (SignInResolves True)
     \<lparr>name = ''Ada'', email = ''ada@example.com'', password = ''secret1'',
      confirmPassword = [], isLoading = False, error = [], success = False,
      providers = None\<rparr> =
     (Normal,
      \<lparr>name = ''Ada'', email = ''ada@example.com'', password = ''secret1'',
       confirmPassword = [], isLoading = False, error = ''All fields are required'',
       success = False, providers = None\<rparr>, [])"
  using empty_confirmation_rejected [of
      "\<lparr>name = ''Ada'', email = ''ada@example.com'', password = ''secret1'',
        confirmPassword = [], isLoading = False, error = [], success = False,
        providers = None\<rparr>"
      "FetchResolves \<lparr>res_ok = True, res_json = JsonResolves (JsonValue None)\<rparr>"
      "SignInResolves True"]
  by simp


text \<open>
  Claim C6, as stated, at one run: the response is ok, so registration succeeded, but its
  body does not parse. The sign-in exchange with the submitted email and password would
  be among the effects. It is not: the parse of line 82 comes before the test of line 84.
\<close>

theorem bootstrap_unparsed_counterexample:
  "\<not> SignInCall ''credentials'' ''ada@example.com'' ''secret1'' False \<in>
      set (effects_of (handleSubmit
        (FetchResolves \<lparr>res_ok = True, res_json = JsonThrows SyntaxError\<rparr>)
        (SignInResolves True)
        \<lparr>name = ''Ada'', email = ''ada@example.com'', password = ''secret1'',
        confirmPassword = ''secret1'', isLoading = False, error = [], success = False,
        providers = None\<rparr>))"
  by (simp add: handleSubmit_def Let_def try_block_def catch_block_def finally_block_def
      effects_of_def register_request_def)

text \<open>
  Claim C6, amended. When the registration request was sent and answered by an ok
  response: if the body parses, the next effect is the sign-in exchange, for the provider
  \<open>credentials\<close> with \<open>redirect: false\<close> and with the email and the password of the
  request body, which are those of the form, and no other sign-in call is made; if the
  parse throws, the request is the only effect, no sign-in is called and the message is
  \<open>An error occurred during registration\<close>.
\<close>

theorem bootstrap_same_credentials:
  assumes "FetchCall req \<in> set (effects_of (handleSubmit f s st))"
    and "f = FetchResolves res" "res_ok res"
  shows "(res_json res = JsonResolves data \<longrightarrow>
       (\<exists>fx. effects_of (handleSubmit f s st) =
            FetchCall req #
            SignInCall ''credentials'' (body_email (req_body req)) (body_password (req_body req))
              False # fx)
       \<and> body_email (req_body req) = email st \<and> body_password (req_body req) = password st
       \<and> (\<forall>p e pw r. SignInCall p e pw r \<in> set (effects_of (handleSubmit f s st)) \<longrightarrow>
            p = ''credentials'' \<and> e = body_email (req_body req) \<and>
            pw = body_password (req_body req) \<and> \<not> r))
     \<and> (res_json res = JsonThrows x \<longrightarrow>
       handleSubmit f s st =
         (Normal, st\<lparr>isLoading := False, error := ''An error occurred during registration''\<rparr>,
          [FetchCall req])
       \<and> (\<forall>p e pw r. SignInCall p e pw r \<notin> set (effects_of (handleSubmit f s st))))"
proof -
  from fetch_call_is_register_request [OF assms(1)]
  have req: "req = register_request st" and v: "name st \<noteq> []" "email st \<noteq> []"
    "password st \<noteq> []" "confirmPassword st \<noteq> []" "password st = confirmPassword st"
    "6 \<le> length (password st)"
    by auto
  have parsed: "res_json res = JsonResolves data \<longrightarrow>
       (\<exists>fx. effects_of (handleSubmit f s st) =
            FetchCall req #
            SignInCall ''credentials'' (body_email (req_body req)) (body_password (req_body req))
              False # fx)
       \<and> body_email (req_body req) = email st \<and> body_password (req_body req) = password st
       \<and> (\<forall>p e pw r. SignInCall p e pw r \<in> set (effects_of (handleSubmit f s st)) \<longrightarrow>
            p = ''credentials'' \<and> e = body_email (req_body req) \<and>
            pw = body_password (req_body req) \<and> \<not> r)"
    using assms(2,3) req
    by (cases s)
      (simp_all add: passes_validation [OF v] effects_of_def try_block_def finally_block_def
        catch_block_def register_request_def)
  have thrown: "res_json res = JsonThrows x \<longrightarrow>
       handleSubmit f s st =
         (Normal, st\<lparr>isLoading := False, error := ''An error occurred during registration''\<rparr>,
          [FetchCall req])
       \<and> (\<forall>p e pw r. SignInCall p e pw r \<notin> set (effects_of (handleSubmit f s st)))"
    using assms(2,3) req
    by (simp add: passes_validation [OF v] effects_of_def try_block_def finally_block_def
        catch_block_def register_request_def)
  from parsed thrown show ?thesis by blast
qed

text \<open>An ok response with a body that parses, and one with a body that does not.\<close>

theorem bootstrap_same_credentials_witness:
  "effects_of (handleSubmit
       (FetchResolves \<lparr>res_ok = True, res_json = JsonResolves (JsonValue None)\<rparr>)
       (SignInResolves True)
       \<lparr>name = ''Ada'', email = ''ada@example.com'', password = ''secret1'',
        confirmPassword = ''secret1'', isLoading = False, error = [], success = False,
        providers = None\<rparr>) =
     [FetchCall
        \<lparr>req_url = ''/api/auth/register'', req_method = ''POST'',
         req_content_type = ''application/json'',
         req_body = \<lparr>body_name = ''Ada'', body_email = ''ada@example.com'',
                     body_password = ''secret1''\<rparr>\<rparr>,
      SignInCall ''credentials'' ''ada@example.com'' ''secret1'' False,
      SetLocationHref ''/'']
   \<and> effects_of (handleSubmit
       (FetchResolves \<lparr>res_ok = True, res_json = JsonThrows SyntaxError\<rparr>)
       (SignInResolves True)
       \<lparr>name = ''Ada'', email = ''ada@example.com'', password = ''secret1'',
        confirmPassword = ''secret1'', isLoading = False, error = [], success = False,
        providers = None\<rparr>) =
     [FetchCall
        \<lparr>req_url = ''/api/auth/register'', req_method = ''POST'',
         req_content_type = ''application/json'',
         req_body = \<lparr>body_name = ''Ada'', body_email = ''ada@example.com'',
                     body_password = ''secret1''\<rparr>\<rparr>]"
proof -
  have e: "effects_of (handleSubmit
       (FetchResolves \<lparr>res_ok = True, res_json = JsonResolves (JsonValue None)\<rparr>)
       (SignInResolves True)
       \<lparr>name = ''Ada'', email = ''ada@example.com'', password = ''secret1'',
        confirmPassword = ''secret1'', isLoading = False, error = [], success = False,
        providers = None\<rparr>) =
     [FetchCall
        \<lparr>req_url = ''/api/auth/register'', req_method = ''POST'',
         req_content_type = ''application/json'',
         req_body = \<lparr>body_name = ''Ada'', body_email = ''ada@example.com'',
                     body_password = ''secret1''\<rparr>\<rparr>,
      SignInCall ''credentials'' ''ada@example.com'' ''secret1'' False,
      SetLocationHref ''/'']"
    by (simp add: handleSubmit_def Let_def try_block_def catch_block_def finally_block_def
        effects_of_def register_request_def)
  have b: "effects_of (handleSubmit
       (FetchResolves \<lparr>res_ok = True, res_json = JsonThrows SyntaxError\<rparr>)
       (SignInResolves True)
       \<lparr>name = ''Ada'', email = ''ada@example.com'', password = ''secret1'',
        confirmPassword = ''secret1'', isLoading = False, error = [], success = False,
        providers = None\<rparr>) =
     [FetchCall
        \<lparr>req_url = ''/api/auth/register'', req_method = ''POST'',
         req_content_type = ''application/json'',
         req_body = \<lparr>body_name = ''Ada'', body_email = ''ada@example.com'',
                     body_password = ''secret1''\<rparr>\<rparr>]"
    by (simp add: handleSubmit_def Let_def try_block_def catch_block_def finally_block_def
        effects_of_def register_request_def)
  have m: "FetchCall
        \<lparr>req_url = ''/api/auth/register'', req_method = ''POST'',
         req_content_type = ''application/json'',
         req_body = \<lparr>body_name = ''Ada'', body_email = ''ada@example.com'',
                     body_password = ''secret1''\<rparr>\<rparr>
      \<in> set (effects_of (handleSubmit
       (FetchResolves \<lparr>res_ok = True, res_json = JsonResolves (JsonValue None)\<rparr>)
       (SignInResolves True)
       \<lparr>name = ''Ada'', email = ''ada@example.com'', password = ''secret1'',
        confirmPassword = ''secret1'', isLoading = False, error = [], success = False,
        providers = None\<rparr>))"
    by (simp add: e)
  have n: "FetchCall
        \<lparr>req_url = ''/api/auth/register'', req_method = ''POST'',
         req_content_type = ''application/json'',
         req_body = \<lparr>body_name = ''Ada'', body_email = ''ada@example.com'',
                     body_password = ''secret1''\<rparr>\<rparr>
      \<in> set (effects_of (handleSubmit
       (FetchResolves \<lparr>res_ok = True, res_json = JsonThrows SyntaxError\<rparr>)
       (SignInResolves True)
       \<lparr>name = ''Ada'', email = ''ada@example.com'', password = ''secret1'',
        confirmPassword = ''secret1'', isLoading = False, error = [], success = False,
        providers = None\<rparr>))"
    by (simp add: b)
  have "\<exists>fx. effects_of (handleSubmit
       (FetchResolves \<lparr>res_ok = True, res_json = JsonResolves (JsonValue None)\<rparr>)
       (SignInResolves True)
       \<lparr>name = ''Ada'', email = ''ada@example.com'', password = ''secret1'',
        confirmPassword = ''secret1'', isLoading = False, error = [], success = False,
        providers = None\<rparr>) =
     FetchCall
        \<lparr>req_url = ''/api/auth/register'', req_method = ''POST'',
         req_content_type = ''application/json'',
         req_body = \<lparr>body_name = ''Ada'', body_email = ''ada@example.com'',
                     body_password = ''secret1''\<rparr>\<rparr> #
      SignInCall ''credentials'' ''ada@example.com'' ''secret1'' False # fx"
    using bootstrap_same_credentials [OF m, of
        "\<lparr>res_ok = True, res_json = JsonResolves (JsonValue None)\<rparr>" "JsonValue None" SyntaxError]
    by simp
  moreover have "effects_of (handleSubmit
       (FetchResolves \<lparr>res_ok = True, res_json = JsonThrows SyntaxError\<rparr>)
       (SignInResolves True)
       \<lparr>name = ''Ada'', email = ''ada@example.com'', password = ''secret1'',
        confirmPassword = ''secret1'', isLoading = False, error = [], success = False,
        providers = None\<rparr>) =
     [FetchCall
        \<lparr>req_url = ''/api/auth/register'', req_method = ''POST'',
         req_content_type = ''application/json'',
         req_body = \<lparr>body_name = ''Ada'', body_email = ''ada@example.com'',
                     body_password = ''secret1''\<rparr>\<rparr>]"
    using bootstrap_same_credentials [OF n, of
        "\<lparr>res_ok = True, res_json = JsonThrows SyntaxError\<rparr>" "JsonValue None" SyntaxError]
    by (simp add: effects_of_def)
  ultimately show ?thesis using e by simp
qed

text \<open>
  Claim C7. For every state and every answer of the request and of the sign-in, the
  handler completes normally, with \<open>isLoading\<close> false and with \<open>success\<close> set or a
  non-empty message; when the request is sent and \<open>fetch\<close> or the parse of the body throws,
  the message is \<open>An error occurred during registration\<close> and nothing else has changed.
\<close>

theorem handleSubmit_never_throws:
  "completion_of (handleSubmit f s st) = Normal
   \<and> \<not> isLoading (final_state (handleSubmit f s st))
   \<and> (success (final_state (handleSubmit f s st)) \<or> error (final_state (handleSubmit f s st)) \<noteq> [])
   \<and> (name st \<noteq> [] \<and> email st \<noteq> [] \<and> password st \<noteq> [] \<and> confirmPassword st = password st \<and>
      6 \<le> length (password st) \<and>
      (f = FetchThrows e \<or> (\<exists>res. f = FetchResolves res \<and> res_json res = JsonThrows e)) \<longrightarrow>
      handleSubmit f s st =
        (Normal, st\<lparr>isLoading := False, error := ''An error occurred during registration''\<rparr>,
         [FetchCall (register_request st)]))"
  by (auto simp add: handleSubmit_def Let_def effects_of_def final_state_def completion_of_def
      try_block_def finally_block_def catch_block_def register_request_def or_else_def data_error_def
      split: if_splits fetch_outcome.splits json_outcome.splits signIn_outcome.splits sum.splits
        option.splits json.splits)

text \<open>A network failure and an unparseable body, on a submission that passes validation.\<close>

theorem handleSubmit_never_throws_witness:
  "handleSubmit (FetchThrows TypeError) (SignInResolves True)
     \<lparr>name = ''Ada'', email = ''ada@example.com'', password = ''secret1'',
      confirmPassword = ''secret1'', isLoading = False, error = [], success = False,
      providers = None\<rparr> =
     (Normal,
      \<lparr>name = ''Ada'', email = ''ada@example.com'', password = ''secret1'',
       confirmPassword = ''secret1'', isLoading = False,
       error = ''An error occurred during registration'', success = False, providers = None\<rparr>,
      [FetchCall
        \<lparr>req_url = ''/api/auth/register'', req_method = ''POST'',
         req_content_type = ''application/json'',
         req_body = \<lparr>body_name = ''Ada'', body_email = ''ada@example.com'',
                     body_password = ''secret1''\<rparr>\<rparr>])
   \<and> error (final_state (handleSubmit
       (FetchResolves \<lparr>res_ok = True, res_json = JsonThrows SyntaxError\<rparr>)
       (SignInResolves True)
       \<lparr>name = ''Ada'', email = ''ada@example.com'', password = ''secret1'',
        confirmPassword = ''secret1'', isLoading = False, error = [], success = False,
        providers = None\<rparr>))
     = ''An error occurred during registration''"
  using
    handleSubmit_never_throws [of "FetchThrows TypeError" "SignInResolves True"
      "\<lparr>name = ''Ada'', email = ''ada@example.com'', password = ''secret1'',
        confirmPassword = ''secret1'', isLoading = False, error = [], success = False,
        providers = None\<rparr>" TypeError]
    handleSubmit_never_throws [of
      "FetchResolves \<lparr>res_ok = True, res_json = JsonThrows SyntaxError\<rparr>" "SignInResolves True"
      "\<lparr>name = ''Ada'', email = ''ada@example.com'', password = ''secret1'',
        confirmPassword = ''secret1'', isLoading = False, error = [], success = False,
        providers = None\<rparr>" SyntaxError]
  by (simp add: register_request_def final_state_def)


section \<open>Properties of the rendered view\<close>

lemma oauth_button_rendered:
  "(\<exists>i n. OAuthButton i n \<in> set (render st)) =
     (\<not> success st \<and> oauthProviders st \<noteq> [])"
  by (cases "oauthProviders st") (auto simp add: render_def)

lemma oauthProviders_nonempty:
  "(oauthProviders st \<noteq> []) =
     (\<exists>ps. providers st = Some ps \<and> (\<exists>p \<in> snd ` set ps. provider_id p \<noteq> ''credentials''))"
  by (auto simp add: oauthProviders_def filter_empty_conv split: option.splits)

text \<open>
  Claim C5. Take the form as it is when provider discovery runs (registration not yet
  successful, \<open>providers\<close> still \<open>null\<close>) and let discovery end in any way. The four fields
  and the submit button are rendered in every case. An OAuth button is rendered exactly
  when discovery resolved with an object holding a provider whose \<open>id\<close> is not
  \<open>credentials\<close>; the buttons are those providers, in order, and there is none when
  discovery threw, resolved with \<open>null\<close> or gave the credentials provider only.
\<close>

theorem form_rendered_whatever_providers:
  assumes "\<not> success st" and "providers st = None"
  shows "set [FieldEl ''Full Name'' (name st), FieldEl ''Email'' (email st),
              FieldEl ''Password'' (password st),
              FieldEl ''Confirm Password'' (confirmPassword st),
              SubmitButton ''Create Account'' (isLoading st)]
           \<subseteq> set (render (fetchProviders r st))
     \<and> ((\<exists>i n. OAuthButton i n \<in> set (render (fetchProviders r st))) =
          (\<exists>ps. r = GetProvidersResolves (Some ps) \<and>
                (\<exists>p \<in> snd ` set ps. provider_id p \<noteq> ''credentials'')))
     \<and> [b \<leftarrow> render (fetchProviders r st). \<exists>i n. b = OAuthButton i n] =
          map (\<lambda>p. OAuthButton (provider_id p) (provider_name p))
            (case r of
               GetProvidersThrows e \<Rightarrow> []
             | GetProvidersResolves None \<Rightarrow> []
             | GetProvidersResolves (Some ps) \<Rightarrow>
                 [p \<leftarrow> map snd ps. provider_id p \<noteq> ''credentials''])"
proof -
  have s: "\<not> success (fetchProviders r st)"
    using assms(1) by (simp add: fetchProviders_def split: getProviders_outcome.splits)
  have f: "name (fetchProviders r st) = name st" "email (fetchProviders r st) = email st"
    "password (fetchProviders r st) = password st"
    "confirmPassword (fetchProviders r st) = confirmPassword st"
    "isLoading (fetchProviders r st) = isLoading st"
    by (simp_all add: fetchProviders_def split: getProviders_outcome.splits)
  have p: "providers (fetchProviders r st) =
      (case r of GetProvidersThrows e \<Rightarrow> None | GetProvidersResolves d \<Rightarrow> d)"
    using assms(2) by (simp add: fetchProviders_def split: getProviders_outcome.splits)
  have 1: "set [FieldEl ''Full Name'' (name st), FieldEl ''Email'' (email st),
              FieldEl ''Password'' (password st),
              FieldEl ''Confirm Password'' (confirmPassword st),
              SubmitButton ''Create Account'' (isLoading st)]
           \<subseteq> set (render (fetchProviders r st))"
    using s f by (simp add: render_def)
  have 2: "(\<exists>i n. OAuthButton i n \<in> set (render (fetchProviders r st))) =
          (\<exists>ps. r = GetProvidersResolves (Some ps) \<and>
                (\<exists>p \<in> snd ` set ps. provider_id p \<noteq> ''credentials''))"
    unfolding oauth_button_rendered oauthProviders_nonempty p using s
    by (cases r) auto
  have 3: "[b \<leftarrow> render (fetchProviders r st). \<exists>i n. b = OAuthButton i n] =
          map (\<lambda>p. OAuthButton (provider_id p) (provider_name p))
            (oauthProviders (fetchProviders r st))"
    using s by (simp add: render_def filter_map o_def)
  have 4: "oauthProviders (fetchProviders r st) =
       (case r of
               GetProvidersThrows e \<Rightarrow> []
             | GetProvidersResolves None \<Rightarrow> []
             | GetProvidersResolves (Some ps) \<Rightarrow>
                 [p \<leftarrow> map snd ps. provider_id p \<noteq> ''credentials''])"
    by (simp add: oauthProviders_def p split: getProviders_outcome.splits option.splits)
  show ?thesis using 1 2 3 4 by simp
qed

text \<open>
  On mount: discovery that throws, and discovery that gives the credentials provider and
  one OAuth provider.
\<close>

theorem form_rendered_whatever_providers_witness:
  "\<not> success initial_state \<and> providers initial_state = None
   \<and> FieldEl ''Email'' [] \<in> set (render (fetchProviders (GetProvidersThrows OtherError) initial_state))
   \<and> SeparatorEl \<notin> set (render (fetchProviders (GetProvidersThrows OtherError) initial_state))
   \<and> FieldEl ''Email'' [] \<in>
       set (render (fetchProviders
         (GetProvidersResolves (Some
           [(''credentials'',
             \<lparr>provider_id = ''credentials'', provider_name = ''credentials'',
              provider_type = ''credentials''\<rparr>),
            (''github'',
             \<lparr>provider_id = ''github'', provider_name = ''GitHub'',
              provider_type = ''oauth''\<rparr>)]))
         initial_state))
   \<and> OAuthButton ''github'' ''GitHub'' \<in>
       set (render (fetchProviders
         (GetProvidersResolves (Some
           [(''credentials'',
             \<lparr>provider_id = ''credentials'', provider_name = ''credentials'',
              provider_type = ''credentials''\<rparr>),
            (''github'',
             \<lparr>provider_id = ''github'', provider_name = ''GitHub'',
              provider_type = ''oauth''\<rparr>)]))
         initial_state))"
proof -
  have h: "\<not> success initial_state" "providers initial_state = None"
    by (simp_all add: initial_state_def)
  show ?thesis
    using h
      form_rendered_whatever_providers [OF h, of "GetProvidersThrows OtherError"]
      form_rendered_whatever_providers [OF h, of
        "GetProvidersResolves (Some
           [(''credentials'',
             \<lparr>provider_id = ''credentials'', provider_name = ''credentials'',
              provider_type = ''credentials''\<rparr>),
            (''github'',
             \<lparr>provider_id = ''github'', provider_name = ''GitHub'',
              provider_type = ''oauth''\<rparr>)])"]
    by (simp add: initial_state_def fetchProviders_def render_def oauthProviders_def)
qed

section \<open>Registration followed by a failed sign-in\<close>

text \<open>
  Claim C2, as stated, at one run: registration answered ok, sign-in resolved without a
  session. If the form prompted a manual sign-in instead of going on as if signed in, the
  link to \<open>/auth/signin\<close> would be in the view and the location would not be set to \<open>/\<close>.
  Neither holds.
\<close>

theorem signIn_failure_prompt_counterexample:
  "\<not> (LinkEl ''/auth/signin'' ''Sign in'' \<in>
        set (render (final_state (handleSubmit
          (FetchResolves \<lparr>res_ok = True, res_json = JsonResolves (JsonValue None)\<rparr>)
          (SignInResolves False)
          \<lparr>name = ''Ada'', email = ''ada@example.com'', password = ''secret1'',
           confirmPassword = ''secret1'', isLoading = False, error = [], success = False,
           providers = None\<rparr>)))
      \<and> SetLocationHref ''/'' \<notin>
        set (effects_of (handleSubmit
          (FetchResolves \<lparr>res_ok = True, res_json = JsonResolves (JsonValue None)\<rparr>)
          (SignInResolves False)
          \<lparr>name = ''Ada'', email = ''ada@example.com'', password = ''secret1'',
           confirmPassword = ''secret1'', isLoading = False, error = [], success = False,
           providers = None\<rparr>)))"
  by (simp add: handleSubmit_def Let_def try_block_def catch_block_def
      finally_block_def final_state_def effects_of_def render_def)

text \<open>
  Claim C2, amended. When registration is answered ok and the sign-in then fails, the
  handler has made the registration request and the sign-in call and nothing else, so
  nothing of it rolls the Account back, and the view is the success message. A sign-in
  that resolves without a session is ignored: the outcome is the one of a sign-in that
  succeeded, location set to \<open>/\<close>. A sign-in that throws leaves the success view in
  place, without navigation.
\<close>

theorem signIn_failure_outcome:
  assumes "name st \<noteq> []" "email st \<noteq> []" "password st \<noteq> []"
    and "confirmPassword st = password st" "6 \<le> length (password st)"
    and "res_ok res" "res_json res = JsonResolves data"
  shows "handleSubmit (FetchResolves res) (SignInResolves False) st =
       (Normal, st\<lparr>isLoading := False, error := [], success := True\<rparr>,
        [FetchCall (register_request st),
         SignInCall ''credentials'' (email st) (password st) False,
         SetLocationHref ''/''])
     \<and> handleSubmit (FetchResolves res) (SignInResolves False) st =
       handleSubmit (FetchResolves res) (SignInResolves True) st
     \<and> handleSubmit (FetchResolves res) (SignInThrows e) st =
       (Normal,
        st\<lparr>isLoading := False, error := ''An error occurred during registration'',
           success := True\<rparr>,
        [FetchCall (register_request st),
         SignInCall ''credentials'' (email st) (password st) False])
     \<and> render (final_state (handleSubmit (FetchResolves res) (SignInResolves False) st)) =
       [TextEl ''Registration successful! Signing you in...'']
     \<and> render (final_state (handleSubmit (FetchResolves res) (SignInThrows e) st)) =
       [TextEl ''Registration successful! Signing you in...'']"
  using assms
  by (simp add: handleSubmit_def Let_def try_block_def catch_block_def
      finally_block_def final_state_def render_def register_request_def)

theorem signIn_failure_outcome_witness:
  "effects_of (handleSubmit
       (FetchResolves \<lparr>res_ok = True, res_json = JsonResolves (JsonValue None)\<rparr>)
       (SignInResolves False)
       \<lparr>name = ''Ada'', email = ''ada@example.com'', password = ''secret1'',
        confirmPassword = ''secret1'', isLoading = False, error = [], success = False,
        providers = None\<rparr>) =
     [FetchCall
        \<lparr>req_url = ''/api/auth/register'', req_method = ''POST'',
         req_content_type = ''application/json'',
         req_body = \<lparr>body_name = ''Ada'', body_email = ''ada@example.com'',
                     body_password = ''secret1''\<rparr>\<rparr>,
      SignInCall ''credentials'' ''ada@example.com'' ''secret1'' False,
      SetLocationHref ''/'']
   \<and> render (final_state (handleSubmit
       (FetchResolves \<lparr>res_ok = True, res_json = JsonResolves (JsonValue None)\<rparr>)
       (SignInThrows OtherError)
       \<lparr>name = ''Ada'', email = ''ada@example.com'', password = ''secret1'',
        confirmPassword = ''secret1'', isLoading = False, error = [], success = False,
        providers = None\<rparr>)) =
     [TextEl ''Registration successful! Signing you in...'']"
  using signIn_failure_outcome [of
      "\<lparr>name = ''Ada'', email = ''ada@example.com'', password = ''secret1'',
        confirmPassword = ''secret1'', isLoading = False, error = [], success = False,
        providers = None\<rparr>"
      "\<lparr>res_ok = True, res_json = JsonResolves (JsonValue None)\<rparr>" "JsonValue None"
      OtherError]
  by (simp add: effects_of_def final_state_def render_def register_request_def)

section \<open>The message of a failed registration\<close>

text \<open>
  Claim C10, as stated, at one run: a response that is not ok and whose body does not
  parse has no \<open>error\<close> field, so the message would be \<open>Registration failed\<close>. It is not.
\<close>

theorem non_ok_message_counterexample:
  "\<not> error (final_state (handleSubmit
        (FetchResolves \<lparr>res_ok = False, res_json = JsonThrows SyntaxError\<rparr>)
        (SignInResolves True)
        \<lparr>name = ''Ada'', email = ''ada@example.com'', password = ''secret1'',
         confirmPassword = ''secret1'', isLoading = False, error = [], success = False,
         providers = None\<rparr>))
      = ''Registration failed''"
  by (simp add: handleSubmit_def Let_def try_block_def catch_block_def
      finally_block_def final_state_def)

text \<open>
  Claim C10, amended. For a response that is not ok: when its body parses to a value other
  than \<open>null\<close>, the message is that value's \<open>error\<close> if it has one and it is not empty, and
  \<open>Registration failed\<close> otherwise; when the parse throws or gives \<open>null\<close>, the message is
  \<open>An error occurred during registration\<close>. Nothing else changes and the request is the
  only effect.
\<close>

theorem non_ok_message:
  assumes "name st \<noteq> []" "email st \<noteq> []" "password st \<noteq> []"
    and "confirmPassword st = password st" "6 \<le> length (password st)"
    and "\<not> res_ok res"
  shows "(res_json res = JsonResolves (JsonValue v) \<longrightarrow>
       handleSubmit (FetchResolves res) s st =
         (Normal,
          st\<lparr>isLoading := False,
             error := (case v of
                         None \<Rightarrow> ''Registration failed''
                       | Some m \<Rightarrow> if m = [] then ''Registration failed'' else m)\<rparr>,
          [FetchCall (register_request st)]))
     \<and> (res_json res = JsonThrows e \<or> res_json res = JsonResolves JsonNull \<longrightarrow>
       handleSubmit (FetchResolves res) s st =
         (Normal, st\<lparr>isLoading := False, error := ''An error occurred during registration''\<rparr>,
          [FetchCall (register_request st)]))"
  using assms
  by (auto simp add: handleSubmit_def Let_def try_block_def catch_block_def
      finally_block_def register_request_def or_else_def data_error_def split: option.splits)

text \<open>A body with a message, a body with none, and a body that does not parse.\<close>

theorem non_ok_message_witness:
  "error (final_state (handleSubmit
       (FetchResolves
          \<lparr>res_ok = False, res_json = JsonResolves (JsonValue (Some ''User already exists''))\<rparr>)
       (SignInResolves True)
       \<lparr>name = ''Ada'', email = ''ada@example.com'', password = ''secret1'',
        confirmPassword = ''secret1'', isLoading = False, error = [], success = False,
        providers = None\<rparr>))
     = ''User already exists''
   \<and> error (final_state (handleSubmit
       (FetchResolves \<lparr>res_ok = False, res_json = JsonResolves (JsonValue None)\<rparr>)
       (SignInResolves True)
       \<lparr>name = ''Ada'', email = ''ada@example.com'', password = ''secret1'',
        confirmPassword = ''secret1'', isLoading = False, error = [], success = False,
        providers = None\<rparr>))
     = ''Registration failed''
   \<and> error (final_state (handleSubmit
       (FetchResolves \<lparr>res_ok = False, res_json = JsonThrows SyntaxError\<rparr>)
       (SignInResolves True)
       \<lparr>name = ''Ada'', email = ''ada@example.com'', password = ''secret1'',
        confirmPassword = ''secret1'', isLoading = False, error = [], success = False,
        providers = None\<rparr>))
     = ''An error occurred during registration''"
  using
    non_ok_message [of
      "\<lparr>name = ''Ada'', email = ''ada@example.com'', password = ''secret1'',
        confirmPassword = ''secret1'', isLoading = False, error = [], success = False,
        providers = None\<rparr>"
      "\<lparr>res_ok = False, res_json = JsonResolves (JsonValue (Some ''User already exists''))\<rparr>"
      "Some ''User already exists''" "SignInResolves True" SyntaxError]
    non_ok_message [of
      "\<lparr>name = ''Ada'', email = ''ada@example.com'', password = ''secret1'',
        confirmPassword = ''secret1'', isLoading = False, error = [], success = False,
        providers = None\<rparr>"
      "\<lparr>res_ok = False, res_json = JsonResolves (JsonValue None)\<rparr>"
      None "SignInResolves True" SyntaxError]
    non_ok_message [of
      "\<lparr>name = ''Ada'', email = ''ada@example.com'', password = ''secret1'',
        confirmPassword = ''secret1'', isLoading = False, error = [], success = False,
        providers = None\<rparr>"
      "\<lparr>res_ok = False, res_json = JsonThrows SyntaxError\<rparr>"
      None "SignInResolves True" SyntaxError]
  by (simp add: final_state_def)


section \<open>Email uniqueness in the Credential Store\<close>

lemma store_insert_unique:
  "unique_emails s \<Longrightarrow> store_insert s a = Inr s' \<Longrightarrow> unique_emails s'"
  by (fastforce simp add: store_insert_def unique_emails_def same_email_def list_ex_iff
      split: if_splits)

lemma concurrent_inserts_unique:
  "unique_emails s \<Longrightarrow> unique_emails (concurrent_inserts as s)"
  by (induction as arbitrary: s) (auto split: sum.splits dest: store_insert_unique)

lemma register_handler_unique:
  "unique_emails s \<Longrightarrow> unique_emails (snd (register_handler hash i t others s req))"
  by (auto simp add: register_handler_def Let_def concurrent_inserts_unique
      split: sum.splits option.splits store_error.splits dest: store_insert_unique
      concurrent_inserts_unique)

lemma distinct_filter_one:
  "distinct (map f xs) \<Longrightarrow> x \<in> set xs \<Longrightarrow> length (filter (\<lambda>a. f a = f x) xs) = 1"
proof (induction xs)
  case Nil
  then show ?case by simp
next
  case (Cons y ys)
  show ?case
  proof (cases "y = x")
    case True
    have "f x \<notin> f ` set ys" using Cons.prems(1) True by simp
    then have "\<forall>a\<in>set ys. f a \<noteq> f x" by (metis image_eqI)
    then have "filter (\<lambda>a. f a = f x) ys = []"
      by (simp add: filter_empty_conv)
    with True show ?thesis by simp
  next
    case False
    then have "x \<in> set ys" using Cons.prems(2) by simp
    moreover have "f y \<noteq> f x" using Cons.prems(1) \<open>x \<in> set ys\<close> by auto
    ultimately show ?thesis using Cons by simp
  qed
qed

lemma accounts_for_one:
  assumes "unique_emails s" "a \<in> set (accounts s)" "same_email (acc_email a) e"
  shows "length (accounts_for s e) = 1"
proof -
  have "accounts_for s e =
      filter (\<lambda>b. map lower_char (acc_email b) = map lower_char (acc_email a)) (accounts s)"
    using assms(3) by (simp add: accounts_for_def same_email_def)
  then show ?thesis
    using distinct_filter_one [of "\<lambda>a. map lower_char (acc_email a)" "accounts s" a] assms
    by (simp add: unique_emails_def)
qed

lemma first_valid_submission:
  assumes "available s" "unique_emails s"
    and "body_name req \<noteq> []" "body_email req \<noteq> []" "6 \<le> length (body_password req)"
  shows "available (snd (register_handler hash i t [] s req))
     \<and> length (accounts_for (snd (register_handler hash i t [] s req)) (body_email req)) = 1"
proof (cases "find (\<lambda>a. same_email (acc_email a) (body_email req)) (accounts s)")
  case None
  then have no: "\<not> list_ex (\<lambda>b. same_email (acc_email b) (body_email req)) (accounts s)"
    by (simp add: find_None_iff list_ex_iff)
  then have "accounts_for s (body_email req) = []"
    by (auto simp add: accounts_for_def filter_empty_conv list_ex_iff)
  moreover have "same_email (body_email req) (body_email req)" by (simp add: same_email_def)
  ultimately show ?thesis
    using assms None no
    by (auto simp add: register_handler_def find_by_email_def store_insert_def accounts_for_def)
next
  case (Some a)
  then have "a \<in> set (accounts s)" "same_email (acc_email a) (body_email req)"
    by (auto simp add: find_Some_iff)
  then have "length (accounts_for s (body_email req)) = 1"
    using accounts_for_one assms(2) by blast
  then show ?thesis
    using assms Some by (auto simp add: register_handler_def find_by_email_def)
qed

lemma second_submission_conflict:
  assumes "available s" "length (accounts_for s e) = 1" "same_email e (body_email req)"
    and "body_name req \<noteq> []" "body_email req \<noteq> []" "6 \<le> length (body_password req)"
  shows "register_handler hash i t others s req =
       (Inl (ConflictError ''email already registered''), s)"
proof -
  have "accounts_for s e = accounts_for s (body_email req)"
    using assms(3) by (simp add: accounts_for_def same_email_def)
  then have "accounts_for s (body_email req) \<noteq> []" using assms(2) by auto
  then obtain a where "find (\<lambda>a. same_email (acc_email a) (body_email req)) (accounts s) = Some a"
    by (cases "find (\<lambda>a. same_email (acc_email a) (body_email req)) (accounts s)")
      (auto simp add: accounts_for_def find_None_iff filter_empty_conv)
  then show ?thesis
    using assms by (auto simp add: register_handler_def find_by_email_def)
qed

text \<open>
  Claim C8. (1) Every run of the handler keeps the emails of the store pairwise different,
  whatever the request and whatever is inserted concurrently. (2) Of two sequential
  submissions with the same email (up to case), both passing the field checks, on an
  available store: the second is answered \<open>ConflictError\<close> and leaves the store as the
  first left it, with exactly one Account for that email. (3) When the pre-check finds no
  Account but the store's constraint then rejects the insert, the answer is the
  \<open>ConflictError\<close> that the pre-check gives on a store already holding the email, and the
  handler has written nothing.
\<close>

theorem email_uniqueness:
  "(unique_emails s \<longrightarrow> unique_emails (snd (register_handler hash i t others s req)))
   \<and> (available s \<and> unique_emails s \<and>
      body_name reqA \<noteq> [] \<and> body_email reqA \<noteq> [] \<and> 6 \<le> length (body_password reqA) \<and>
      body_name reqB \<noteq> [] \<and> body_email reqB \<noteq> [] \<and> 6 \<le> length (body_password reqB) \<and>
      same_email (body_email reqA) (body_email reqB) \<longrightarrow>
      register_handler hash iB tB [] (snd (register_handler hash iA tA [] s reqA)) reqB =
        (Inl (ConflictError ''email already registered''),
         snd (register_handler hash iA tA [] s reqA))
      \<and> length (accounts_for (snd (register_handler hash iA tA [] s reqA)) (body_email reqA)) = 1)
   \<and> (body_name req \<noteq> [] \<and> body_email req \<noteq> [] \<and> 6 \<le> length (body_password req) \<and>
      find_by_email s (body_email req) = Inr None \<and>
      store_insert (concurrent_inserts others s)
        \<lparr>acc_id = i, acc_name = body_name req, acc_email = body_email req,
         acc_passwordHash = Some (hash (body_password req)), acc_createdAt = t\<rparr>
        = Inl UniqueViolation \<and>
      find_by_email s' (body_email req) = Inr (Some a) \<longrightarrow>
      fst (register_handler hash i t others s req) = fst (register_handler hash i t [] s' req)
      \<and> fst (register_handler hash i t others s req) =
          Inl (ConflictError ''email already registered'')
      \<and> snd (register_handler hash i t others s req) = concurrent_inserts others s)"
proof (intro conjI impI)
  assume "unique_emails s"
  then show "unique_emails (snd (register_handler hash i t others s req))"
    by (rule register_handler_unique)
next
  assume a: "available s \<and> unique_emails s \<and>
      body_name reqA \<noteq> [] \<and> body_email reqA \<noteq> [] \<and> 6 \<le> length (body_password reqA) \<and>
      body_name reqB \<noteq> [] \<and> body_email reqB \<noteq> [] \<and> 6 \<le> length (body_password reqB) \<and>
      same_email (body_email reqA) (body_email reqB)"
  then have f: "available (snd (register_handler hash iA tA [] s reqA))
     \<and> length (accounts_for (snd (register_handler hash iA tA [] s reqA)) (body_email reqA)) = 1"
    using first_valid_submission by blast
  then show "length (accounts_for (snd (register_handler hash iA tA [] s reqA)) (body_email reqA)) = 1"
    by simp
  show "register_handler hash iB tB [] (snd (register_handler hash iA tA [] s reqA)) reqB =
        (Inl (ConflictError ''email already registered''),
         snd (register_handler hash iA tA [] s reqA))"
    using second_submission_conflict [of "snd (register_handler hash iA tA [] s reqA)"
        "body_email reqA" reqB hash iB tB "[]"] a f
    by blast
next
  assume b: "body_name req \<noteq> [] \<and> body_email req \<noteq> [] \<and> 6 \<le> length (body_password req) \<and>
      find_by_email s (body_email req) = Inr None \<and>
      store_insert (concurrent_inserts others s)
        \<lparr>acc_id = i, acc_name = body_name req, acc_email = body_email req,
         acc_passwordHash = Some (hash (body_password req)), acc_createdAt = t\<rparr>
        = Inl UniqueViolation \<and>
      find_by_email s' (body_email req) = Inr (Some a)"
  then have "body_password req \<noteq> []" by auto
  with b show "fst (register_handler hash i t others s req) = fst (register_handler hash i t [] s' req)"
    "fst (register_handler hash i t others s req) =
          Inl (ConflictError ''email already registered'')"
    "snd (register_handler hash i t others s req) = concurrent_inserts others s"
    by (simp_all add: register_handler_def)
qed


text \<open>
  Two sequential registrations of one address written in different case, on an empty store;
  and one registration whose address another request inserts after the pre-check.
\<close>

theorem email_uniqueness_witness:
  "register_handler rev 8 20 []
     (snd (register_handler rev 7 10 [] \<lparr>accounts = [], available = True\<rparr>
        \<lparr>body_name = ''Bob'', body_email = ''bob@example.com'', body_password = ''secret1''\<rparr>))
     \<lparr>body_name = ''Bob'', body_email = ''BOB@example.com'', body_password = ''secret2''\<rparr> =
     (Inl (ConflictError ''email already registered''),
      \<lparr>accounts =
         [\<lparr>acc_id = 7, acc_name = ''Bob'', acc_email = ''bob@example.com'',
           acc_passwordHash = Some ''1terces'', acc_createdAt = 10\<rparr>],
       available = True\<rparr>)
   \<and> register_handler rev 7 10
       [\<lparr>acc_id = 5, acc_name = ''Rob'', acc_email = ''Bob@Example.com'',
         acc_passwordHash = Some ''x'', acc_createdAt = 3\<rparr>]
       \<lparr>accounts = [], available = True\<rparr>
       \<lparr>body_name = ''Bob'', body_email = ''bob@example.com'', body_password = ''secret1''\<rparr> =
     (Inl (ConflictError ''email already registered''),
      \<lparr>accounts =
         [\<lparr>acc_id = 5, acc_name = ''Rob'', acc_email = ''Bob@Example.com'',
           acc_passwordHash = Some ''x'', acc_createdAt = 3\<rparr>],
       available = True\<rparr>)"
proof -
  note t = email_uniqueness [where s = "\<lparr>accounts = [], available = True\<rparr>" and hash = rev
        and i = 7 and t = 10 and iA = 7 and tA = 10 and iB = 8 and tB = 20
        and others = "[\<lparr>acc_id = 5, acc_name = ''Rob'', acc_email = ''Bob@Example.com'',
          acc_passwordHash = Some ''x'', acc_createdAt = 3\<rparr>]"
        and req = "\<lparr>body_name = ''Bob'', body_email = ''bob@example.com'',
          body_password = ''secret1''\<rparr>"
        and reqA = "\<lparr>body_name = ''Bob'', body_email = ''bob@example.com'',
          body_password = ''secret1''\<rparr>"
        and reqB = "\<lparr>body_name = ''Bob'', body_email = ''BOB@example.com'',
          body_password = ''secret2''\<rparr>"
        and s' = "\<lparr>accounts =
         [\<lparr>acc_id = 5, acc_name = ''Rob'', acc_email = ''Bob@Example.com'',
           acc_passwordHash = Some ''x'', acc_createdAt = 3\<rparr>],
       available = True\<rparr>"
        and a = "\<lparr>acc_id = 5, acc_name = ''Rob'', acc_email = ''Bob@Example.com'',
           acc_passwordHash = Some ''x'', acc_createdAt = 3\<rparr>"]
  have sequential: "available \<lparr>accounts = [], available = True\<rparr> \<and>
      unique_emails \<lparr>accounts = [], available = True\<rparr> \<and>
      body_name \<lparr>body_name = ''Bob'', body_email = ''bob@example.com'',
          body_password = ''secret1''\<rparr> \<noteq> [] \<and>
      body_email \<lparr>body_name = ''Bob'', body_email = ''bob@example.com'',
          body_password = ''secret1''\<rparr> \<noteq> [] \<and>
      6 \<le> length (body_password \<lparr>body_name = ''Bob'', body_email = ''bob@example.com'',
          body_password = ''secret1''\<rparr>) \<and>
      body_name \<lparr>body_name = ''Bob'', body_email = ''BOB@example.com'',
          body_password = ''secret2''\<rparr> \<noteq> [] \<and>
      body_email \<lparr>body_name = ''Bob'', body_email = ''BOB@example.com'',
          body_password = ''secret2''\<rparr> \<noteq> [] \<and>
      6 \<le> length (body_password \<lparr>body_name = ''Bob'', body_email = ''BOB@example.com'',
          body_password = ''secret2''\<rparr>) \<and>
      same_email
        (body_email \<lparr>body_name = ''Bob'', body_email = ''bob@example.com'',
          body_password = ''secret1''\<rparr>)
        (body_email \<lparr>body_name = ''Bob'', body_email = ''BOB@example.com'',
          body_password = ''secret2''\<rparr>)"
    by (simp add: unique_emails_def same_email_def lower_char_def)
  have raced: "body_name \<lparr>body_name = ''Bob'', body_email = ''bob@example.com'',
          body_password = ''secret1''\<rparr> \<noteq> [] \<and>
      body_email \<lparr>body_name = ''Bob'', body_email = ''bob@example.com'',
          body_password = ''secret1''\<rparr> \<noteq> [] \<and>
      6 \<le> length (body_password \<lparr>body_name = ''Bob'', body_email = ''bob@example.com'',
          body_password = ''secret1''\<rparr>) \<and>
      find_by_email \<lparr>accounts = [], available = True\<rparr>
        (body_email \<lparr>body_name = ''Bob'', body_email = ''bob@example.com'',
          body_password = ''secret1''\<rparr>) = Inr None \<and>
      store_insert
        (concurrent_inserts
          [\<lparr>acc_id = 5, acc_name = ''Rob'', acc_email = ''Bob@Example.com'',
            acc_passwordHash = Some ''x'', acc_createdAt = 3\<rparr>]
          \<lparr>accounts = [], available = True\<rparr>)
        \<lparr>acc_id = 7,
         acc_name = body_name \<lparr>body_name = ''Bob'', body_email = ''bob@example.com'',
          body_password = ''secret1''\<rparr>,
         acc_email = body_email \<lparr>body_name = ''Bob'', body_email = ''bob@example.com'',
          body_password = ''secret1''\<rparr>,
         acc_passwordHash = Some (rev (body_password
           \<lparr>body_name = ''Bob'', body_email = ''bob@example.com'',
            body_password = ''secret1''\<rparr>)),
         acc_createdAt = 10\<rparr> = Inl UniqueViolation \<and>
      find_by_email
        \<lparr>accounts =
           [\<lparr>acc_id = 5, acc_name = ''Rob'', acc_email = ''Bob@Example.com'',
             acc_passwordHash = Some ''x'', acc_createdAt = 3\<rparr>],
         available = True\<rparr>
        (body_email \<lparr>body_name = ''Bob'', body_email = ''bob@example.com'',
          body_password = ''secret1''\<rparr>) =
      Inr (Some \<lparr>acc_id = 5, acc_name = ''Rob'', acc_email = ''Bob@Example.com'',
             acc_passwordHash = Some ''x'', acc_createdAt = 3\<rparr>)"
    by (simp add: find_by_email_def store_insert_def same_email_def lower_char_def)
  have first: "snd (register_handler rev 7 10 [] \<lparr>accounts = [], available = True\<rparr>
        \<lparr>body_name = ''Bob'', body_email = ''bob@example.com'', body_password = ''secret1''\<rparr>) =
      \<lparr>accounts =
         [\<lparr>acc_id = 7, acc_name = ''Bob'', acc_email = ''bob@example.com'',
           acc_passwordHash = Some ''1terces'', acc_createdAt = 10\<rparr>],
       available = True\<rparr>"
    by (simp add: register_handler_def find_by_email_def store_insert_def)
  have others: "concurrent_inserts
        [\<lparr>acc_id = 5, acc_name = ''Rob'', acc_email = ''Bob@Example.com'',
          acc_passwordHash = Some ''x'', acc_createdAt = 3\<rparr>]
        \<lparr>accounts = [], available = True\<rparr> =
      \<lparr>accounts =
         [\<lparr>acc_id = 5, acc_name = ''Rob'', acc_email = ''Bob@Example.com'',
           acc_passwordHash = Some ''x'', acc_createdAt = 3\<rparr>],
       available = True\<rparr>"
    by (simp add: store_insert_def)
  from t [THEN conjunct2, THEN conjunct1, THEN mp, OF sequential, THEN conjunct1]
  have second: "register_handler rev 8 20 []
     (snd (register_handler rev 7 10 [] \<lparr>accounts = [], available = True\<rparr>
        \<lparr>body_name = ''Bob'', body_email = ''bob@example.com'', body_password = ''secret1''\<rparr>))
     \<lparr>body_name = ''Bob'', body_email = ''BOB@example.com'', body_password = ''secret2''\<rparr> =
     (Inl (ConflictError ''email already registered''),
      snd (register_handler rev 7 10 [] \<lparr>accounts = [], available = True\<rparr>
        \<lparr>body_name = ''Bob'', body_email = ''bob@example.com'', body_password = ''secret1''\<rparr>))" .
  from t [THEN conjunct2, THEN conjunct2, THEN mp, OF raced, THEN conjunct2]
  have race: "fst (register_handler rev 7 10
       [\<lparr>acc_id = 5, acc_name = ''Rob'', acc_email = ''Bob@Example.com'',
         acc_passwordHash = Some ''x'', acc_createdAt = 3\<rparr>]
       \<lparr>accounts = [], available = True\<rparr>
       \<lparr>body_name = ''Bob'', body_email = ''bob@example.com'', body_password = ''secret1''\<rparr>) =
      Inl (ConflictError ''email already registered'')
    \<and> snd (register_handler rev 7 10
       [\<lparr>acc_id = 5, acc_name = ''Rob'', acc_email = ''Bob@Example.com'',
         acc_passwordHash = Some ''x'', acc_createdAt = 3\<rparr>]
       \<lparr>accounts = [], available = True\<rparr>
       \<lparr>body_name = ''Bob'', body_email = ''bob@example.com'', body_password = ''secret1''\<rparr>) =
      concurrent_inserts
        [\<lparr>acc_id = 5, acc_name = ''Rob'', acc_email = ''Bob@Example.com'',
          acc_passwordHash = Some ''x'', acc_createdAt = 3\<rparr>]
        \<lparr>accounts = [], available = True\<rparr>" .
  show ?thesis
    unfolding first using second [unfolded first] race [unfolded others]
    by (simp add: prod_eq_iff)
qed

end
